theory Spec2Isabelle
  imports Main "HOL-Library.Sublist"
begin

section \<open>The assembly runner extension (src/src/extension.ts)\<close>

text \<open>
  The extension shells out to the process listing, the force-kill command, the assembler,
  the linker and the debugger.  The operating system is a parameter of the model: an
  arbitrary world \<open>'w\<close> with the operations the code calls on it.  Module-level variables,
  the diagnostic collection and the configuration entries the code reads and writes are
  fields of one state record, which every function takes and returns.  Everything the
  code does to its surroundings (a command spawned, a line logged, a notification shown,
  a file unlinked) is appended to the \<open>events\<close> of the state, in program order.
\<close>

subsection \<open>JavaScript strings\<close>

text \<open>
  A \<open>char\<close> stands for one code unit of a JavaScript string, of the 256 that a
  \<open>char\<close> can hold (Latin-1); strings with other code units are outside the model.
  Among these, \<open>toLowerCase\<close> changes the letters \<open>A\<close> to \<open>Z\<close> (65 to 90) and the
  accented capitals 192 to 214 and 216 to 222, each to the code unit 32 above it.
\<close>

definition quote :: string where
  "quote = [CHR 0x22]"

definition backslash :: string where
  "backslash = [CHR 0x5C]"

definition newline :: char where
  "newline = CHR 0x0A"

definition toLowerChar :: "char \<Rightarrow> char" where
  "toLowerChar c =
     (let n = (of_char c :: nat)
      in if (65 \<le> n \<and> n \<le> 90) \<or> (192 \<le> n \<and> n \<le> 214) \<or> (216 \<le> n \<and> n \<le> 222)
         then char_of (n + 32)
         else c)"

definition toLowerCase :: "string \<Rightarrow> string" where
  "toLowerCase s = map toLowerChar s"

definition startsWith :: "string \<Rightarrow> string \<Rightarrow> bool" where
  "startsWith s t = (take (length t) s = t)"

text \<open>\<open>s.includes(t)\<close>: \<open>t\<close> occurs in \<open>s\<close> as a contiguous substring.\<close>

fun js_includes :: "string \<Rightarrow> string \<Rightarrow> bool" where
  "js_includes [] t = (t = [])"
| "js_includes (c # cs) t = (startsWith (c # cs) t \<or> js_includes cs t)"

text \<open>
  \<open>s.split(sep)\<close> for a separator of one code unit: the result is never empty, and a
  string without the separator is returned whole.
\<close>

fun js_split :: "char \<Rightarrow> string \<Rightarrow> string list" where
  "js_split sep [] = [] # []"
| "js_split sep (c # cs) =
     (if c = sep then [] # js_split sep cs
      else (case js_split sep cs of
              [] \<Rightarrow> [c] # []
            | seg # segs \<Rightarrow> (c # seg) # segs))"

text \<open>
  \<open>s.slice(0, -3)\<close>: the end index is \<open>max (length s - 3) 0\<close>, so a string shorter than
  three code units gives the empty string.
\<close>

definition slice_0_minus3 :: "string \<Rightarrow> string" where
  "slice_0_minus3 s = take (length s - 3) s"

text \<open>\<open>s.split("\\").pop()\<close>: the segment after the last backslash.\<close>

definition split_backslash_pop :: "string \<Rightarrow> string" where
  "split_backslash_pop s = last (js_split (CHR 0x5C) s)"

definition isDigit :: "char \<Rightarrow> bool" where
  "isDigit c = (c \<in> set ''0123456789'')"

text \<open>
  \<open>line.match(/:(\d+):/)\<close>: the leftmost position holding a colon, then a non-empty run
  of digits, then a colon.  The run is taken greedily; giving digits back cannot help,
  because the code unit after a shorter run is a digit and not a colon.  The result is
  capture group 1, the digits.
\<close>

fun match_line_pattern :: "string \<Rightarrow> string option" where
  "match_line_pattern [] = None"
| "match_line_pattern (c # cs) =
     (if c = CHR '':'' \<and> takeWhile isDigit cs \<noteq> [] \<and>
         startsWith (dropWhile isDigit cs) '':''
      then Some (takeWhile isDigit cs)
      else match_line_pattern cs)"

subsection \<open>JavaScript numbers\<close>

text \<open>
  A JavaScript number is a double.  The numbers that occur here come from strings of
  decimal digits and from subtracting one, so a number is an integer that a double can
  hold, or infinity.
\<close>

datatype js_number = Finite int | Infinity

text \<open>The value that a string of decimal digits writes (the code of \<open>0\<close> is 48).\<close>

definition digitValue :: "char \<Rightarrow> int" where
  "digitValue c = of_char c - 48"

definition decimalValue :: "string \<Rightarrow> int" where
  "decimalValue ds = foldl (\<lambda>acc c. 10 * acc + digitValue c) 0 ds"

text \<open>The number of binary digits of a positive integer.\<close>

function bitLength :: "int \<Rightarrow> nat" where
  "bitLength n = (if n \<le> 0 then 0 else Suc (bitLength (n div 2)))"
  by pat_completeness auto
termination
  by (relation "measure nat") auto

declare bitLength.simps [simp del]

text \<open>
  The double nearest to a non-negative integer.  Up to \<open>2 ^ 53\<close> (9007199254740992)
  every integer is a double.  Above, a double keeps the 53 leading binary digits: the rest
  is rounded to the nearest, a tie to the even one, and a result of \<open>2 ^ 1024\<close> or more
  is infinity.  This is the correctly rounded value, the one that the engine of the editor
  computes.
\<close>

definition roundToDouble :: "int \<Rightarrow> js_number" where
  "roundToDouble n =
     (if n \<le> 9007199254740992 then Finite n
      else
        (let e = bitLength n - 53;
             q = n div 2 ^ e;
             r = n mod 2 ^ e;
             m = (if 2 ^ e < 2 * r \<or> (2 * r = 2 ^ e \<and> odd q) then q + 1 else q) * 2 ^ e
         in if 2 ^ 1024 \<le> m then Infinity else Finite m))"

text \<open>\<open>Number(lineNumber)\<close> on a string of decimal digits.\<close>

definition Number :: "string \<Rightarrow> js_number" where
  "Number ds = roundToDouble (decimalValue ds)"

text \<open>\<open>x - 1\<close>: the double nearest to the exact difference.\<close>

definition js_minus_one :: "js_number \<Rightarrow> js_number" where
  "js_minus_one x =
     (case x of
        Finite n \<Rightarrow> if n \<le> 0 then Finite (n - 1) else roundToDouble (n - 1)
      | Infinity \<Rightarrow> Infinity)"

definition is_negative :: "js_number \<Rightarrow> bool" where
  "is_negative x = (case x of Finite n \<Rightarrow> n < 0 | Infinity \<Rightarrow> False)"

subsection \<open>Editor values\<close>

text \<open>
  The values of the editor.  A position is a line and a character, both counted from zero.
  The editor's constructor \<open>new vscode.Position(line, character)\<close> throws for a negative
  line or character, and \<open>vscode.Uri.file(path)\<close> throws for \<open>undefined\<close>; the result
  \<open>None\<close> stands for the exception.  A file URI is modelled by its path.
\<close>

datatype Position = Position js_number js_number

datatype Range = Range Position Position

datatype DiagnosticSeverity = Error | Warning | Information | Hint

datatype Diagnostic = Diagnostic Range string DiagnosticSeverity

definition new_Position :: "js_number \<Rightarrow> js_number \<Rightarrow> Position option" where
  "new_Position line character =
     (if is_negative line \<or> is_negative character then None else Some (Position line character))"

definition Uri_file :: "string option \<Rightarrow> string option" where
  "Uri_file path = path"

subsection \<open>Promises\<close>

text \<open>
  A promise is pending until the first call of \<open>resolve\<close> or \<open>reject\<close>; later calls
  change nothing.  The source calls \<open>reject\<close> without returning, so the callback goes on
  and reaches a \<open>resolve\<close> that has no effect on the promise.
\<close>

datatype 'a promise = Pending | Resolved 'a | Rejected string

definition resolve :: "'a \<Rightarrow> 'a promise \<Rightarrow> 'a promise" where
  "resolve v p = (case p of Pending \<Rightarrow> Resolved v | _ \<Rightarrow> p)"

definition reject :: "string \<Rightarrow> 'a promise \<Rightarrow> 'a promise" where
  "reject e p = (case p of Pending \<Rightarrow> Rejected e | _ \<Rightarrow> p)"

subsection \<open>State and surroundings\<close>

datatype event =
    Exec string
  | ConsoleLog string
  | ConsoleError string
  | ShowInformationMessage string
  | ShowWarningMessage string
  | ShowErrorMessage string
  | ShowInputBox
  | Unlink string
  | CreateTerminal string
  | TerminalShow
  | TerminalSendText string

text \<open>
  \<open>os_exec cmd w\<close> is what \<open>exec(cmd, callback)\<close> hands to its callback, the message
  of the error (\<open>None\<close> for \<open>null\<close>) and the standard output, with the world after the
  command.  \<open>os_unlink\<close> is \<open>fs.unlink\<close>, \<open>os_showInputBox\<close> is what the user enters
  (\<open>None\<close> for \<open>undefined\<close>).
\<close>

record 'w os =
  os_exec :: "string \<Rightarrow> 'w \<Rightarrow> (string option \<times> string) \<times> 'w"
  os_unlink :: "string \<Rightarrow> 'w \<Rightarrow> string option \<times> 'w"
  os_showInputBox :: "'w \<Rightarrow> string option \<times> 'w"

text \<open>
  \<open>activeTextEditor\<close> holds \<open>document.fileName\<close> of the active editor, \<open>None\<close> for
  \<open>undefined\<close>.  The fields \<open>asm_...\<close> are the configuration entries \<open>asm....\<close>;
  \<open>asm_showStopIconInEditorTitleMenu\<close> is the running flag that \<open>setRunningState\<close>
  writes.  The diagnostic collection is keyed by the path of the file URI.  Configuration
  updates are taken to have happened when \<open>update\<close> is called.
\<close>

record 'w state =
  activeTextEditor :: "string option"
  currentDebugFileExecutable :: string
  stoppingExecutable :: bool
  diagnosticCollection :: "string \<rightharpoonup> Diagnostic list"
  asm_executablePath :: "string option"
  asm_showStopIconInEditorTitleMenu :: bool
  asm_showTerminalInDebugMode :: bool
  events :: "event list"
  world :: 'w

definition emit :: "event \<Rightarrow> 'w state \<Rightarrow> 'w state" where
  "emit e s = s\<lparr>events := events s @ [e]\<rparr>"

definition exec :: "'w os \<Rightarrow> string \<Rightarrow> 'w state \<Rightarrow> (string option \<times> string) \<times> 'w state" where
  "exec os cmd s =
     (let (r, w) = os_exec os cmd (world s)
      in (r, (emit (Exec cmd) s)\<lparr>world := w\<rparr>))"

text \<open>\<open>${error}\<close> of an \<open>Error\<close> object in a template string.\<close>

definition errorToString :: "string \<Rightarrow> string" where
  "errorToString msg = ''Error: '' @ msg"

text \<open>
  \<open>await p\<close> inside an async function: the function goes on with the value of a resolved
  promise, is itself rejected when the promise is, and never finishes when the promise
  stays pending.
\<close>

definition await ::
  "'a promise \<times> 'w state \<Rightarrow> ('a \<Rightarrow> 'w state \<Rightarrow> 'b promise \<times> 'w state) \<Rightarrow> 'b promise \<times> 'w state" where
  "await ps k =
     (case fst ps of
        Resolved v \<Rightarrow> k v (snd ps)
      | Rejected e \<Rightarrow> (Rejected e, snd ps)
      | Pending \<Rightarrow> (Pending, snd ps))"

subsection \<open>The functions of extension.ts\<close>

definition isTerminalVisible :: "'w state \<Rightarrow> bool" where
  "isTerminalVisible s = asm_showTerminalInDebugMode s"

definition getExecutablePath :: "'w os \<Rightarrow> 'w state \<Rightarrow> string option \<times> 'w state" where
  "getExecutablePath os s =
     (if asm_executablePath s = None \<or> asm_executablePath s = Some []
      then
        (let (answer, w) = os_showInputBox os (world s);
             s1 = (emit ShowInputBox s)\<lparr>world := w\<rparr>
         in case answer of
              Some entered \<Rightarrow>
                if entered \<noteq> []
                then (answer,
                      emit (ShowInformationMessage (''Saved executable path: '' @ entered))
                        (s1\<lparr>asm_executablePath := answer\<rparr>))
                else (answer, emit (ShowWarningMessage ''No executable path set.'') s1)
            | None \<Rightarrow> (answer, emit (ShowWarningMessage ''No executable path set.'') s1))
      else (asm_executablePath s, s))"

definition setRunningState :: "bool \<Rightarrow> 'w state \<Rightarrow> 'w state" where
  "setRunningState isRunning s = s\<lparr>asm_showStopIconInEditorTitleMenu := isRunning\<rparr>"

definition killExecutable :: "'w os \<Rightarrow> string \<Rightarrow> 'w state \<Rightarrow> string promise \<times> 'w state" where
  "killExecutable os executable s =
     (let ((error, stdout), s1) = exec os ''tasklist'' s;
          (p1, s2) =
            (case error of
               Some msg \<Rightarrow>
                 (reject msg Pending,
                  emit (ConsoleError (''Error checking for running processes: '' @ errorToString msg)) s1)
             | None \<Rightarrow> (Pending, s1))
      in if js_includes (toLowerCase stdout) (toLowerCase executable)
         then
           (let s3 = emit (ConsoleLog (''The executable '' @ executable @ '' is running. Stopping it...'')) s2;
                ((error', stdout'), s4) = exec os (''taskkill /F /IM '' @ executable) s3;
                (p2, s5) =
                  (case error' of
                     Some msg' \<Rightarrow>
                       (resolve ''error'' p1,
                        emit (ConsoleError (''Error stopping '' @ executable @ '': '' @ errorToString msg')) s4)
                   | None \<Rightarrow> (p1, s4));
                s6 = emit (ConsoleLog (executable @ '' has been successfully stopped.'')) s5
            in (resolve stdout' p2, s6))
         else
           (resolve stdout p1,
            emit (ConsoleLog (''The executable '' @ executable @ '' is not running.'')) s2))"

text \<open>
  \<open>currentDebugFileExecutable\<close> is a string in every state of the model, so only the
  comparison with the empty string remains of the guard.
\<close>

definition stopDebugging :: "'w os \<Rightarrow> 'w state \<Rightarrow> unit promise \<times> 'w state" where
  "stopDebugging os s =
     (let executableName = ''ollydbg.exe'';
          s1 = s\<lparr>stoppingExecutable := True\<rparr>;
          finish = (\<lambda>s'. (Resolved (), (setRunningState False s')\<lparr>stoppingExecutable := False\<rparr>))
      in await (killExecutable os executableName s1) (\<lambda>_ s2.
           if currentDebugFileExecutable s2 \<noteq> []
           then await (killExecutable os (currentDebugFileExecutable s2) s2) (\<lambda>_ s3. finish s3)
           else finish s2))"

text \<open>
  The callback of \<open>startExecutable\<close>, run on the state in which the command ends:
  \<open>stoppingExecutable\<close> is read there, not when the command was spawned.  \<open>finish\<close> is
  the end of the callback, the log line and \<open>resolve(stdout)\<close>, which every path reaches
  that does not throw.  Where a constructor of the editor throws, the callback ends at
  once: nothing more is logged, no diagnostic is set, and the promise stays pending.
\<close>

definition startExecutable_callback ::
  "string \<Rightarrow> string option \<Rightarrow> string option \<times> string \<Rightarrow> 'w state \<Rightarrow> string promise \<times> 'w state" where
  "startExecutable_callback executable documentFileName r s =
     (let (error, stdout) = r;
          finish = (\<lambda>p s'.
            (resolve stdout p,
             emit (ConsoleLog (executable @ '' has been successfully started and terminal minimized.'')) s'))
      in case error of
           None \<Rightarrow> finish Pending s
         | Some message \<Rightarrow>
             if stoppingExecutable s then finish Pending s
             else
               (let s1 = emit (ConsoleError (''Error starting '' @ executable @ '': '' @ errorToString message)) s;
                    splitError = js_split newline message
                in if length splitError > 1
                   then
                     (case match_line_pattern (splitError ! 1) of
                        Some lineNumber \<Rightarrow>
                          (case new_Position (js_minus_one (Number lineNumber)) (Finite 0) of
                             None \<Rightarrow> (Pending, s1)
                           | Some startPosition \<Rightarrow>
                               (case new_Position (js_minus_one (Number lineNumber)) (Finite 1000) of
                                  None \<Rightarrow> (Pending, s1)
                                | Some endPosition \<Rightarrow>
                                    (let diagRange = Range startPosition endPosition;
                                         diagnostic = Diagnostic diagRange (splitError ! 1) Error;
                                         diagnostics = [] @ [diagnostic]
                                     in case Uri_file documentFileName of
                                          None \<Rightarrow> (Pending, s1)
                                        | Some uri \<Rightarrow>
                                            (let s2 = s1\<lparr>diagnosticCollection :=
                                                          (diagnosticCollection s1)(uri \<mapsto> diagnostics)\<rparr>;
                                                 s3 = emit (ShowErrorMessage (''Error: '' @ splitError ! 1))
                                                        (emit (ConsoleLog (''Line Number: '' @ lineNumber)) s2)
                                             in finish (reject (''Errors: '' @ splitError ! 1) Pending) s3))))
                      | None \<Rightarrow>
                          finish (reject (''Errors: '' @ splitError ! 1) Pending)
                            (emit (ConsoleLog ''Line number not found in the error message.'') s1))
                   else finish (reject (''Error: '' @ message) Pending) s1))"

definition startExecutable :: "'w os \<Rightarrow> string \<Rightarrow> 'w state \<Rightarrow> string promise \<times> 'w state" where
  "startExecutable os executable s =
     (let documentFileName = activeTextEditor s;
          (r, s1) = exec os executable s
      in startExecutable_callback executable documentFileName r s1)"

text \<open>
  \<open>fs.unlink\<close> is handed its callback and not waited for: \<open>deleteFile\<close> returns once
  the call is made, and the callback runs after the command that called \<open>deleteFile\<close>
  has returned.  So the callback is a function of its own, which no command calls.
\<close>

definition deleteFile :: "'w os \<Rightarrow> string \<Rightarrow> 'w state \<Rightarrow> 'w state" where
  "deleteFile os fileName s =
     (let s1 = emit (ConsoleLog (''Deleting file '' @ fileName)) s;
          (err, w) = os_unlink os fileName (world s1)
      in (emit (Unlink fileName) s1)\<lparr>world := w\<rparr>)"

definition deleteFile_callback :: "string option \<Rightarrow> 'w state \<Rightarrow> 'w state" where
  "deleteFile_callback err s =
     (case err of
        Some e \<Rightarrow> emit (ConsoleError e) s
      | None \<Rightarrow> s)"

definition nasmCommand :: "string \<Rightarrow> string \<Rightarrow> string \<Rightarrow> string" where
  "nasmCommand path currentFile lstFile =
     quote @ path @ quote @ backslash @ ''nasm'' @ backslash @ ''nasm.exe -fobj '' @
     quote @ currentFile @ quote @ '' -l '' @ quote @ lstFile @ quote @ '' -I'' @
     quote @ path @ quote @ backslash @ ''nasm'' @ backslash @ backslash"

definition alinkConsoleCommand :: "string \<Rightarrow> string \<Rightarrow> string" where
  "alinkConsoleCommand path objFile =
     quote @ path @ backslash @ ''nasm'' @ backslash @ ''ALINK.EXE'' @ quote @
     '' -oPE -subsys console -entry start '' @ quote @ objFile @ quote"

definition alinkPlainCommand :: "string \<Rightarrow> string \<Rightarrow> string" where
  "alinkPlainCommand path objFile =
     quote @ path @ backslash @ ''nasm'' @ backslash @ ''ALINK.EXE'' @ quote @
     '' -oPE -entry start '' @ quote @ objFile @ quote"

definition ollydbgCommand :: "string \<Rightarrow> string \<Rightarrow> string" where
  "ollydbgCommand path exeFile =
     quote @ path @ backslash @ ''ollydbg'' @ backslash @ ''ollydbg.exe'' @ quote @
     '' '' @ quote @ exeFile @ quote"

text \<open>Lines 226 to 228 of \<open>debugCommand\<close>: the listing, object and executable paths.\<close>

definition debugCommand_files :: "string \<Rightarrow> string \<times> string \<times> string" where
  "debugCommand_files currentFile =
     (slice_0_minus3 currentFile @ ''lst'',
      slice_0_minus3 currentFile @ ''obj'',
      slice_0_minus3 currentFile @ ''exe'')"

text \<open>Lines 283 to 285 of \<open>runCommand\<close>: the same three paths, written out again there.\<close>

definition runCommand_files :: "string \<Rightarrow> string \<times> string \<times> string" where
  "runCommand_files currentFile =
     (slice_0_minus3 currentFile @ ''lst'',
      slice_0_minus3 currentFile @ ''obj'',
      slice_0_minus3 currentFile @ ''exe'')"

definition debugCommand :: "'w os \<Rightarrow> 'w state \<Rightarrow> unit promise \<times> 'w state" where
  "debugCommand os s =
     await (stopDebugging os s) (\<lambda>_ s1.
       let (executablePath, s2) = getExecutablePath os s1
       in if executablePath = None \<or> executablePath = Some []
          then (Resolved (), emit (ShowInformationMessage ''No executable path set!'') s2)
          else if activeTextEditor s2 = None
          then (Resolved (), emit (ShowInformationMessage ''No active editor!'') s2)
          else
            (let path = (case executablePath of Some p \<Rightarrow> p | None \<Rightarrow> []);
                 currentFile = (case activeTextEditor s2 of Some f \<Rightarrow> f | None \<Rightarrow> []);
                 showTerminal = isTerminalVisible s2;
                 (lstFile, objFile, exeFile) = debugCommand_files currentFile;
                 nasm = nasmCommand path currentFile lstFile;
                 alink = (if showTerminal then alinkConsoleCommand path objFile
                          else alinkPlainCommand path objFile);
                 ollydbg = ollydbgCommand path exeFile;
                 fileExecutableName = split_backslash_pop (slice_0_minus3 currentFile @ ''exe'');
                 s3 = s2\<lparr>currentDebugFileExecutable := fileExecutableName\<rparr>;
                 s4 = s3\<lparr>diagnosticCollection := Map.empty\<rparr>
             in await (startExecutable os nasm s4) (\<lambda>_ s5.
                await (startExecutable os alink s5) (\<lambda>_ s6.
                await (startExecutable os ollydbg (setRunningState True s6)) (\<lambda>_ s7.
                  (Resolved (),
                   deleteFile os exeFile
                     (deleteFile os objFile
                        (deleteFile os lstFile (setRunningState False s7)))))))))"

definition runCommand :: "'w os \<Rightarrow> 'w state \<Rightarrow> unit promise \<times> 'w state" where
  "runCommand os s =
     await (stopDebugging os s) (\<lambda>_ s1.
       let (executablePath, s2) = getExecutablePath os s1
       in if executablePath = None \<or> executablePath = Some []
          then (Resolved (), emit (ShowInformationMessage ''No executable path set!'') s2)
          else if activeTextEditor s2 = None
          then (Resolved (), emit (ShowInformationMessage ''No active editor!'') s2)
          else
            (let path = (case executablePath of Some p \<Rightarrow> p | None \<Rightarrow> []);
                 currentFile = (case activeTextEditor s2 of Some f \<Rightarrow> f | None \<Rightarrow> []);
                 (lstFile, objFile, exeFile) = runCommand_files currentFile;
                 nasm = nasmCommand path currentFile lstFile;
                 alink = alinkConsoleCommand path objFile;
                 run = quote @ exeFile @ quote;
                 fileExecutableName = split_backslash_pop (slice_0_minus3 currentFile @ ''exe'');
                 s3 = s2\<lparr>diagnosticCollection := Map.empty\<rparr>
             in await (startExecutable os nasm s3) (\<lambda>_ s4.
                await (startExecutable os alink s4) (\<lambda>_ s5.
                  (Resolved (),
                   (emit (TerminalSendText run)
                      (emit TerminalShow
                         (emit (CreateTerminal ''Assembly'') s5)))
                     \<lparr>currentDebugFileExecutable := fileExecutableName\<rparr>)))))"

definition stopCommand :: "'w os \<Rightarrow> 'w state \<Rightarrow> unit promise \<times> 'w state" where
  "stopCommand os s = await (stopDebugging os s) (\<lambda>_ s1. (Resolved (), s1))"


subsection \<open>The error locator\<close>

text \<open>
  Lines 172 to 178 of \<open>startExecutable\<close>: the message of the error is split into lines,
  and the pattern is looked for in the second line only.  The result is what the code
  holds in \<open>lineNumber\<close> and \<open>splitError[1]\<close>: the matched digits, which count lines
  from one, and the second line.
\<close>

definition errorLocator :: "string \<Rightarrow> (string \<times> string) option" where
  "errorLocator message =
     (let splitError = js_split newline message
      in if length splitError > 1
         then (case match_line_pattern (splitError ! 1) of
                 Some lineNumber \<Rightarrow> Some (lineNumber, splitError ! 1)
               | None \<Rightarrow> None)
         else None)"


subsection \<open>What an invocation did\<close>

text \<open>The commands handed to \<open>exec\<close>, in order.\<close>

fun exec_commands :: "event list \<Rightarrow> string list" where
  "exec_commands [] = []"
| "exec_commands (Exec cmd # es) = cmd # exec_commands es"
| "exec_commands (_ # es) = exec_commands es"

text \<open>The paths handed to \<open>fs.unlink\<close>, in order.\<close>

fun unlinked :: "event list \<Rightarrow> string list" where
  "unlinked [] = []"
| "unlinked (Unlink f # es) = f # unlinked es"
| "unlinked (_ # es) = unlinked es"

text \<open>The notifications shown to the user, in order.\<close>

fun notifications :: "event list \<Rightarrow> event list" where
  "notifications [] = []"
| "notifications (ShowInformationMessage m # es) = ShowInformationMessage m # notifications es"
| "notifications (ShowWarningMessage m # es) = ShowWarningMessage m # notifications es"
| "notifications (ShowErrorMessage m # es) = ShowErrorMessage m # notifications es"
| "notifications (_ # es) = notifications es"

subsection \<open>A scripted world\<close>

text \<open>
  A world for evaluating the functions: the list holds the results of the commands still
  to be spawned, in the order in which they end; a command spawned on the empty list
  succeeds with empty output.  Unlinking succeeds, and the input box gives a fixed answer.
\<close>

definition scripted_os :: "string option \<Rightarrow> (string option \<times> string) list os" where
  "scripted_os answer =
     \<lparr>os_exec = (\<lambda>cmd w. case w of [] \<Rightarrow> ((None, []), []) | r # rs \<Rightarrow> (r, rs)),
      os_unlink = (\<lambda>f w. (None, w)),
      os_showInputBox = (\<lambda>w. (answer, w))\<rparr>"

definition session :: "string option \<Rightarrow> string option \<Rightarrow> string \<Rightarrow> bool \<Rightarrow> 'w \<Rightarrow> 'w state" where
  "session editor path target running w =
     \<lparr>activeTextEditor = editor, currentDebugFileExecutable = target,
      stoppingExecutable = False, diagnosticCollection = Map.empty,
      asm_executablePath = path, asm_showStopIconInEditorTitleMenu = running,
      asm_showTerminalInDebugMode = True, events = [], world = w\<rparr>"

text \<open>
  Three sessions in the scripted world.  In the first no toolchain path is configured, the
  user dismisses the input box, and the running flag has its configured default.  In the
  second the assembler ends with an error whose second line names line 5.  In the third
  every command succeeds.
\<close>

definition without_toolchain :: "(string option \<times> string) list state" where
  "without_toolchain = session (Some ''hello.asm'') None [] True [(None, ''svchost.exe'')]"



subsection \<open>The pattern in words\<close>

text \<open>
  The pattern as the specification words it: the line holds a colon, one or more digits
  and a colon, here with \<open>pre\<close> before the first colon and \<open>post\<close> after the second.
\<close>

definition spec_pattern_at :: "string \<Rightarrow> string \<Rightarrow> string \<Rightarrow> string \<Rightarrow> bool" where
  "spec_pattern_at pre ds post line \<longleftrightarrow>
     line = pre @ '':'' @ ds @ '':'' @ post \<and> ds \<noteq> [] \<and> list_all isDigit ds"

section \<open>Basic facts\<close>

lemma exec_commands_append [simp]: "exec_commands (xs @ ys) = exec_commands xs @ exec_commands ys"
  by (induction xs rule: exec_commands.induct) simp_all

lemma unlinked_append [simp]: "unlinked (xs @ ys) = unlinked xs @ unlinked ys"
  by (induction xs rule: unlinked.induct) simp_all

lemma notifications_append [simp]: "notifications (xs @ ys) = notifications xs @ notifications ys"
  by (induction xs rule: notifications.induct) simp_all

lemma resolve_simps [simp]:
  "resolve v Pending = Resolved v"
  "resolve v (Resolved u) = Resolved u"
  "resolve v (Rejected e) = Rejected e"
  "reject e Pending = Rejected e"
  by (simp_all add: resolve_def reject_def)

lemma await_simps [simp]:
  "await (Resolved v, s) k = k v s"
  "await (Rejected e, s) k = (Rejected e, s)"
  "await (Pending, s) k = (Pending, s)"
  by (simp_all add: await_def)

lemma emit_simps [simp]:
  "events (emit e s) = events s @ [e]"
  "world (emit e s) = world s"
  "activeTextEditor (emit e s) = activeTextEditor s"
  "currentDebugFileExecutable (emit e s) = currentDebugFileExecutable s"
  "stoppingExecutable (emit e s) = stoppingExecutable s"
  "diagnosticCollection (emit e s) = diagnosticCollection s"
  "asm_executablePath (emit e s) = asm_executablePath s"
  "asm_showStopIconInEditorTitleMenu (emit e s) = asm_showStopIconInEditorTitleMenu s"
  "asm_showTerminalInDebugMode (emit e s) = asm_showTerminalInDebugMode s"
  by (simp_all add: emit_def)

lemma killExecutable_session [simp]:
  "activeTextEditor (snd (killExecutable os n s)) = activeTextEditor s"
  "currentDebugFileExecutable (snd (killExecutable os n s)) = currentDebugFileExecutable s"
  "stoppingExecutable (snd (killExecutable os n s)) = stoppingExecutable s"
  "diagnosticCollection (snd (killExecutable os n s)) = diagnosticCollection s"
  "asm_executablePath (snd (killExecutable os n s)) = asm_executablePath s"
  "asm_showStopIconInEditorTitleMenu (snd (killExecutable os n s)) = asm_showStopIconInEditorTitleMenu s"
  "asm_showTerminalInDebugMode (snd (killExecutable os n s)) = asm_showTerminalInDebugMode s"
  by (simp_all add: killExecutable_def exec_def Let_def case_prod_beta split: option.splits)

lemma killExecutable_not_Pending: "fst (killExecutable os n s) \<noteq> Pending"
  by (simp add: killExecutable_def exec_def Let_def case_prod_beta split: option.splits)

lemma killExecutable_prefix: "prefix (events s) (events (snd (killExecutable os n s)))"
  by (simp add: killExecutable_def exec_def Let_def case_prod_beta split: option.splits)

lemma killExecutable_unlinked [simp]:
  "unlinked (events (snd (killExecutable os n s))) = unlinked (events s)"
  by (simp add: killExecutable_def exec_def Let_def case_prod_beta split: option.splits)

lemma killExecutable_notifications [simp]:
  "notifications (events (snd (killExecutable os n s))) = notifications (events s)"
  by (simp add: killExecutable_def exec_def Let_def case_prod_beta split: option.splits)

lemma killExecutable_exec_commands:
  "exec_commands (events (snd (killExecutable os n s))) =
     exec_commands (events s) @ ''tasklist'' #
       (if js_includes (toLowerCase (snd (fst (os_exec os ''tasklist'' (world s))))) (toLowerCase n)
        then [''taskkill /F /IM '' @ n] else [])"
  by (simp add: killExecutable_def exec_def Let_def case_prod_beta split: option.splits)

lemma killExecutable_listing_error:
  "os_exec os ''tasklist'' (world s) = ((Some msg, out), w) \<Longrightarrow>
   fst (killExecutable os n s) = Rejected msg"
  by (simp add: killExecutable_def exec_def Let_def case_prod_beta split: option.splits)

lemma killExecutable_listing_ok:
  "fst (fst (os_exec os ''tasklist'' (world s))) = None \<Longrightarrow>
   \<exists>v. fst (killExecutable os n s) = Resolved v"
  by (simp add: killExecutable_def exec_def Let_def case_prod_beta split: option.splits)

lemma killExecutable_not_running:
  "os_exec os ''tasklist'' (world s) = ((None, out), w) \<Longrightarrow>
   \<not> js_includes (toLowerCase out) (toLowerCase n) \<Longrightarrow>
   killExecutable os n s =
     (Resolved out,
      s\<lparr>events := events s @
           [Exec ''tasklist'', ConsoleLog (''The executable '' @ n @ '' is not running.'')],
        world := w\<rparr>)"
  by (simp add: killExecutable_def exec_def emit_def Let_def)

lemma stopDebugging_session [simp]:
  "activeTextEditor (snd (stopDebugging os s)) = activeTextEditor s"
  "currentDebugFileExecutable (snd (stopDebugging os s)) = currentDebugFileExecutable s"
  "diagnosticCollection (snd (stopDebugging os s)) = diagnosticCollection s"
  "asm_executablePath (snd (stopDebugging os s)) = asm_executablePath s"
  "asm_showTerminalInDebugMode (snd (stopDebugging os s)) = asm_showTerminalInDebugMode s"
  by (simp_all add: stopDebugging_def await_def setRunningState_def Let_def split: promise.splits)

lemma stopDebugging_not_Pending: "fst (stopDebugging os s) \<noteq> Pending"
  using killExecutable_not_Pending
  by (auto simp add: stopDebugging_def await_def Let_def split: promise.splits)

lemma stopDebugging_resolved:
  "fst (stopDebugging os s) = Resolved v \<Longrightarrow>
   \<not> stoppingExecutable (snd (stopDebugging os s)) \<and>
   \<not> asm_showStopIconInEditorTitleMenu (snd (stopDebugging os s))"
  by (auto simp add: stopDebugging_def await_def setRunningState_def Let_def split: promise.splits if_splits)

lemma stopDebugging_rejected:
  "fst (stopDebugging os s) = Rejected e \<Longrightarrow>
   stoppingExecutable (snd (stopDebugging os s)) \<and>
   asm_showStopIconInEditorTitleMenu (snd (stopDebugging os s)) = asm_showStopIconInEditorTitleMenu s"
  by (auto simp add: stopDebugging_def await_def setRunningState_def Let_def split: promise.splits if_splits)

lemma stopDebugging_unlinked [simp]:
  "unlinked (events (snd (stopDebugging os s))) = unlinked (events s)"
  by (simp add: stopDebugging_def await_def setRunningState_def Let_def split: promise.splits)

lemma stopDebugging_notifications [simp]:
  "notifications (events (snd (stopDebugging os s))) = notifications (events s)"
  by (simp add: stopDebugging_def await_def setRunningState_def Let_def split: promise.splits)

lemma stopDebugging_prefix: "prefix (events s) (events (snd (stopDebugging os s)))"
proof -
  have k: "\<And>n t. prefix (events t) (events (snd (killExecutable os n t)))"
    by (rule killExecutable_prefix)
  have k1: "prefix (events s) (events (snd (killExecutable os ''ollydbg.exe'' (s\<lparr>stoppingExecutable := True\<rparr>))))"
    using k [of "s\<lparr>stoppingExecutable := True\<rparr>" "''ollydbg.exe''"] by simp
  show ?thesis
    using k1 k [of "snd (killExecutable os ''ollydbg.exe'' (s\<lparr>stoppingExecutable := True\<rparr>))"
                   "currentDebugFileExecutable s"]
    by (auto simp add: stopDebugging_def await_def setRunningState_def Let_def
             split: promise.splits intro: prefix_order.trans)
qed

lemma stopDebugging_exec_commands:
  "\<exists>cs. exec_commands (events (snd (stopDebugging os s))) = exec_commands (events s) @ cs \<and>
        set cs \<subseteq> {''tasklist'', ''taskkill /F /IM ollydbg.exe'',
                   ''taskkill /F /IM '' @ currentDebugFileExecutable s}"
  by (auto simp add: stopDebugging_def await_def setRunningState_def Let_def killExecutable_exec_commands
           split: promise.splits)

lemma getExecutablePath_session [simp]:
  "activeTextEditor (snd (getExecutablePath os s)) = activeTextEditor s"
  "currentDebugFileExecutable (snd (getExecutablePath os s)) = currentDebugFileExecutable s"
  "stoppingExecutable (snd (getExecutablePath os s)) = stoppingExecutable s"
  "diagnosticCollection (snd (getExecutablePath os s)) = diagnosticCollection s"
  "asm_showStopIconInEditorTitleMenu (snd (getExecutablePath os s)) = asm_showStopIconInEditorTitleMenu s"
  "asm_showTerminalInDebugMode (snd (getExecutablePath os s)) = asm_showTerminalInDebugMode s"
  "exec_commands (events (snd (getExecutablePath os s))) = exec_commands (events s)"
  "unlinked (events (snd (getExecutablePath os s))) = unlinked (events s)"
  by (simp_all add: getExecutablePath_def Let_def case_prod_beta split: option.splits)

lemma getExecutablePath_prefix: "prefix (events s) (events (snd (getExecutablePath os s)))"
  by (simp add: getExecutablePath_def Let_def case_prod_beta split: option.splits)

lemma startExecutable_session [simp]:
  "activeTextEditor (snd (startExecutable os c s)) = activeTextEditor s"
  "currentDebugFileExecutable (snd (startExecutable os c s)) = currentDebugFileExecutable s"
  "stoppingExecutable (snd (startExecutable os c s)) = stoppingExecutable s"
  "asm_executablePath (snd (startExecutable os c s)) = asm_executablePath s"
  "asm_showStopIconInEditorTitleMenu (snd (startExecutable os c s)) = asm_showStopIconInEditorTitleMenu s"
  "asm_showTerminalInDebugMode (snd (startExecutable os c s)) = asm_showTerminalInDebugMode s"
  "exec_commands (events (snd (startExecutable os c s))) = exec_commands (events s) @ [c]"
  "unlinked (events (snd (startExecutable os c s))) = unlinked (events s)"
  by (simp_all add: startExecutable_def startExecutable_callback_def exec_def Let_def case_prod_beta
                split: option.splits)

lemma startExecutable_prefix: "prefix (events s) (events (snd (startExecutable os c s)))"
  by (simp add: startExecutable_def startExecutable_callback_def exec_def Let_def case_prod_beta
           split: option.splits)

lemma startExecutable_resolved_diagnostics:
  "fst (startExecutable os c s) = Resolved v \<Longrightarrow>
   diagnosticCollection (snd (startExecutable os c s)) = diagnosticCollection s \<and>
   notifications (events (snd (startExecutable os c s))) = notifications (events s)"
  by (simp add: startExecutable_def startExecutable_callback_def exec_def Let_def case_prod_beta
           split: option.splits if_splits)

lemma is_negative_simps [simp]:
  "is_negative (Finite n) = (n < 0)"
  "is_negative Infinity = False"
  by (simp_all add: is_negative_def)

lemma bitLength_positive: "0 < n \<Longrightarrow> 0 < bitLength n"
  by (subst bitLength.simps) simp

lemma bitLength_lower: "0 < n \<Longrightarrow> 2 ^ (bitLength n - 1) \<le> n"
proof (induction n rule: bitLength.induct)
  case (1 n)
  have unfold: "bitLength n = Suc (bitLength (n div 2))"
    using "1.prems" by (subst bitLength.simps) simp
  show ?case
  proof (cases "0 < n div 2")
    case False
    then have "bitLength (n div 2) = 0"
      by (subst bitLength.simps) simp
    then show ?thesis
      using "1.prems" by (simp add: unfold)
  next
    case True
    then have half: "2 ^ (bitLength (n div 2) - 1) \<le> n div 2"
      using "1.IH" "1.prems" by simp
    have "Suc (bitLength (n div 2) - 1) = bitLength (n div 2)"
      using bitLength_positive [OF True] by simp
    then have "(2::int) ^ bitLength (n div 2) = 2 * 2 ^ (bitLength (n div 2) - 1)"
      by (metis power_Suc)
    also have "\<dots> \<le> 2 * (n div 2)"
      using half by simp
    also have "\<dots> \<le> n"
      by simp
    finally show ?thesis
      by (simp add: unfold)
  qed
qed

lemma roundToDouble_not_negative:
  assumes "0 \<le> n"
  shows "\<not> is_negative (roundToDouble n)"
proof (cases "n \<le> 9007199254740992")
  case True
  then show ?thesis
    using assms by (simp add: roundToDouble_def)
next
  case False
  let ?e = "bitLength n - 53"
  have "0 \<le> n div 2 ^ ?e"
    using assms by (simp add: pos_imp_zdiv_nonneg_iff)
  then have "0 \<le> (if 2 ^ ?e < 2 * (n mod 2 ^ ?e) \<or> (2 * (n mod 2 ^ ?e) = 2 ^ ?e \<and> odd (n div 2 ^ ?e))
                  then n div 2 ^ ?e + 1 else n div 2 ^ ?e) * 2 ^ ?e"
    by simp
  then show ?thesis
    using False by (simp add: roundToDouble_def Let_def not_less)
qed

lemma roundToDouble_positive:
  assumes "9007199254740992 < n"
  shows "roundToDouble n = Infinity \<or> (\<exists>m. roundToDouble n = Finite m \<and> 0 < m)"
proof -
  let ?e = "bitLength n - 53"
  have "(2::int) ^ ?e \<le> 2 ^ (bitLength n - 1)"
    by (rule power_increasing) simp_all
  also have "\<dots> \<le> n"
    using assms by (intro bitLength_lower) simp
  finally have "0 < n div 2 ^ ?e"
    by (simp add: pos_imp_zdiv_pos_iff)
  then have "0 < (if 2 ^ ?e < 2 * (n mod 2 ^ ?e) \<or> (2 * (n mod 2 ^ ?e) = 2 ^ ?e \<and> odd (n div 2 ^ ?e))
                  then n div 2 ^ ?e + 1 else n div 2 ^ ?e) * 2 ^ ?e"
    by simp
  then show ?thesis
    using assms by (simp add: roundToDouble_def Let_def)
qed

lemma minus_one_negative_iff:
  "is_negative (js_minus_one (Number ds)) \<longleftrightarrow> decimalValue ds \<le> 0"
proof (cases "decimalValue ds \<le> 9007199254740992")
  case True
  then show ?thesis
    using roundToDouble_not_negative [of "decimalValue ds - 1"]
    by (auto simp add: Number_def js_minus_one_def roundToDouble_def)
next
  case False
  then have big: "9007199254740992 < decimalValue ds"
    by simp
  from roundToDouble_positive [OF big] show ?thesis
  proof
    assume "roundToDouble (decimalValue ds) = Infinity"
    then show ?thesis
      using big by (simp add: Number_def js_minus_one_def)
  next
    assume "\<exists>m. roundToDouble (decimalValue ds) = Finite m \<and> 0 < m"
    then obtain m where m: "roundToDouble (decimalValue ds) = Finite m" "0 < m"
      by blast
    then show ?thesis
      using big roundToDouble_not_negative [of "m - 1"]
      by (simp add: Number_def js_minus_one_def)
  qed
qed


lemma Number_exact:
  "decimalValue ds \<le> 9007199254740992 \<Longrightarrow> Number ds = Finite (decimalValue ds)"
  by (simp add: Number_def roundToDouble_def)

lemma decimalValue_snoc: "decimalValue (ds @ [d]) = 10 * decimalValue ds + (of_char d - 48)"
  by (simp add: decimalValue_def digitValue_def)

lemma decimalValue_Nil: "decimalValue [] = 0"
  by (simp add: decimalValue_def)




lemma startExecutable_failure_throws:
  assumes "os_exec os c (world s) = ((Some message, out), w)" and "\<not> stoppingExecutable s"
      and "errorLocator message = Some (ds, msg)"
      and "decimalValue ds \<le> 0 \<or> activeTextEditor s = None"
  shows "fst (startExecutable os c s) = Pending"
    and "diagnosticCollection (snd (startExecutable os c s)) = diagnosticCollection s"
    and "notifications (events (snd (startExecutable os c s))) = notifications (events s)"
proof -
  have line: "is_negative (js_minus_one (Number ds)) \<or> activeTextEditor s = None"
    using assms(4) by (simp add: minus_one_negative_iff)
  show "fst (startExecutable os c s) = Pending"
    and "diagnosticCollection (snd (startExecutable os c s)) = diagnosticCollection s"
    and "notifications (events (snd (startExecutable os c s))) = notifications (events s)"
    using assms(1-3) line
    by (auto simp add: startExecutable_def startExecutable_callback_def exec_def Let_def
                  errorLocator_def new_Position_def Uri_file_def
                  split: option.splits if_splits)
qed

lemma deleteFile_session [simp]:
  "activeTextEditor (deleteFile os f s) = activeTextEditor s"
  "currentDebugFileExecutable (deleteFile os f s) = currentDebugFileExecutable s"
  "stoppingExecutable (deleteFile os f s) = stoppingExecutable s"
  "diagnosticCollection (deleteFile os f s) = diagnosticCollection s"
  "asm_executablePath (deleteFile os f s) = asm_executablePath s"
  "asm_showStopIconInEditorTitleMenu (deleteFile os f s) = asm_showStopIconInEditorTitleMenu s"
  "asm_showTerminalInDebugMode (deleteFile os f s) = asm_showTerminalInDebugMode s"
  "exec_commands (events (deleteFile os f s)) = exec_commands (events s)"
  "unlinked (events (deleteFile os f s)) = unlinked (events s) @ [f]"
  by (simp_all add: deleteFile_def Let_def case_prod_beta)

lemma scripted_os_simps [simp]:
  "os_exec (scripted_os a) cmd [] = ((None, []), [])"
  "os_exec (scripted_os a) cmd (r # rs) = (r, rs)"
  "os_unlink (scripted_os a) f w = (None, w)"
  "os_showInputBox (scripted_os a) w = (a, w)"
  by (simp_all add: scripted_os_def)

lemma session_simps [simp]:
  "activeTextEditor (session e p t r w) = e"
  "currentDebugFileExecutable (session e p t r w) = t"
  "stoppingExecutable (session e p t r w) = False"
  "diagnosticCollection (session e p t r w) = Map.empty"
  "asm_executablePath (session e p t r w) = p"
  "asm_showStopIconInEditorTitleMenu (session e p t r w) = r"
  "asm_showTerminalInDebugMode (session e p t r w) = True"
  "events (session e p t r w) = []"
  "world (session e p t r w) = w"
  by (simp_all add: session_def)

section \<open>Facts about the commands\<close>

lemma setRunningState_simps [simp]:
  "asm_showStopIconInEditorTitleMenu (setRunningState b s) = b"
  "events (setRunningState b s) = events s"
  "world (setRunningState b s) = world s"
  "activeTextEditor (setRunningState b s) = activeTextEditor s"
  "currentDebugFileExecutable (setRunningState b s) = currentDebugFileExecutable s"
  "stoppingExecutable (setRunningState b s) = stoppingExecutable s"
  "diagnosticCollection (setRunningState b s) = diagnosticCollection s"
  by (simp_all add: setRunningState_def)

lemma startExecutable_success:
  "os_exec os c (world s) = ((None, out), w) \<Longrightarrow>
   startExecutable os c s =
     (Resolved out,
      s\<lparr>events := events s @
           [Exec c, ConsoleLog (c @ '' has been successfully started and terminal minimized.'')],
        world := w\<rparr>)"
  by (simp add: startExecutable_def startExecutable_callback_def exec_def emit_def Let_def)





lemma await_prefix:
  assumes "prefix es (events (snd ps))"
      and "\<And>v. prefix (events (snd ps)) (events (snd (k v (snd ps))))"
  shows "prefix es (events (snd (await ps k)))"
  using assms by (cases "fst ps") (auto simp add: await_def intro: prefix_order.trans)

lemma deleteFile_prefix: "prefix (events s) (events (deleteFile os f s))"
  by (simp add: deleteFile_def Let_def case_prod_beta)

lemma resolved_unit: "fst r = Resolved () \<Longrightarrow> r = (Resolved (), snd r)"
  by (simp add: prod_eq_iff)




lemma precondition_missing:
  assumes stop: "stopDebugging os s = (Resolved (), s1)"
      and path: "getExecutablePath os s1 = (p, s2)"
      and missing: "p = None \<or> p = Some [] \<or> activeTextEditor s = None"
  shows "runCommand os s =
           (Resolved (),
            emit (ShowInformationMessage
                    (if p = None \<or> p = Some [] then ''No executable path set!''
                     else ''No active editor!'')) s2)"
    and "debugCommand os s = runCommand os s"
proof -
  have "activeTextEditor (snd (getExecutablePath os (snd (stopDebugging os s)))) = activeTextEditor s"
    by simp
  then have editor: "activeTextEditor s2 = activeTextEditor s"
    by (simp add: stop path)
  show "runCommand os s =
           (Resolved (),
            emit (ShowInformationMessage
                    (if p = None \<or> p = Some [] then ''No executable path set!''
                     else ''No active editor!'')) s2)"
    using missing by (auto simp add: runCommand_def stop path editor)
  then show "debugCommand os s = runCommand os s"
    using missing by (auto simp add: debugCommand_def stop path editor)
qed



lemma runCommand_extends_stopDebugging:
  "prefix (events (snd (stopDebugging os s))) (events (snd (runCommand os s)))"
proof -
  let ?s1 = "snd (stopDebugging os s)"
  let ?s2 = "snd (getExecutablePath os ?s1)"
  have p: "prefix (events ?s1) (events ?s2)"
    by (rule getExecutablePath_prefix)
  have n: "\<And>c t. events t = events ?s2 \<Longrightarrow> prefix (events ?s1) (events (snd (startExecutable os c t)))"
    using p startExecutable_prefix prefix_order.trans by metis
  show ?thesis
    unfolding runCommand_def using p
    by (intro await_prefix)
       (auto simp add: Let_def case_prod_beta intro!: await_prefix n startExecutable_prefix
             intro: prefix_order.trans)
qed

lemma debugCommand_extends_stopDebugging:
  "prefix (events (snd (stopDebugging os s))) (events (snd (debugCommand os s)))"
proof -
  let ?s1 = "snd (stopDebugging os s)"
  let ?s2 = "snd (getExecutablePath os ?s1)"
  have p: "prefix (events ?s1) (events ?s2)"
    by (rule getExecutablePath_prefix)
  have n: "\<And>c t. events t = events ?s2 \<Longrightarrow> prefix (events ?s1) (events (snd (startExecutable os c t)))"
    using p startExecutable_prefix prefix_order.trans by metis
  have d: "\<And>f t. prefix (events t) (events (deleteFile os f t))"
    by (rule deleteFile_prefix)
  have d3: "\<And>f g h t. prefix (events t) (events (deleteFile os f (deleteFile os g (deleteFile os h t))))"
    using d prefix_order.trans by metis
  have d3': "\<And>f g h t. prefix (events t)
      (events (deleteFile os f (deleteFile os g (deleteFile os h (setRunningState False t)))))"
    using d3 [of "setRunningState False _"] by simp
  have m: "\<And>c t. prefix (events t) (events (snd (startExecutable os c (setRunningState True t))))"
    using startExecutable_prefix [of "setRunningState True _" os] by simp
  show ?thesis
    unfolding debugCommand_def using p
    by (intro await_prefix)
       (auto simp add: Let_def case_prod_beta intro!: await_prefix n startExecutable_prefix d3' m
             intro: prefix_order.trans)
qed

lemma stopCommand_extends_stopDebugging:
  "prefix (events (snd (stopDebugging os s))) (events (snd (stopCommand os s)))"
  unfolding stopCommand_def by (intro await_prefix) simp_all

lemma stopDebugging_extends_first_kill:
  "prefix (events (snd (killExecutable os ''ollydbg.exe'' (s\<lparr>stoppingExecutable := True\<rparr>))))
     (events (snd (stopDebugging os s)))"
  unfolding stopDebugging_def Let_def
  by (intro await_prefix) (auto simp add: setRunningState_def intro!: await_prefix killExecutable_prefix)

lemma stopDebugging_extends_second_kill:
  assumes "fst (killExecutable os ''ollydbg.exe'' (s\<lparr>stoppingExecutable := True\<rparr>)) = Resolved v"
      and "currentDebugFileExecutable s \<noteq> []"
  shows "prefix (events (snd (killExecutable os (currentDebugFileExecutable s)
                                (snd (killExecutable os ''ollydbg.exe'' (s\<lparr>stoppingExecutable := True\<rparr>))))))
           (events (snd (stopDebugging os s)))"
  using assms
  by (simp add: stopDebugging_def Let_def await_def setRunningState_def split: promise.splits)

section \<open>Facts about the error locator\<close>

lemma js_split_without_separator: "sep \<notin> set s \<Longrightarrow> js_split sep s = [s]"
  by (induction s) auto

lemma js_split_at_separator:
  "sep \<notin> set a \<Longrightarrow> js_split sep (a @ sep # r) = a # js_split sep r"
  by (induction a) auto

lemma js_split_second_line:
  assumes "sep \<notin> set first" and "sep \<notin> set line" and "rest = [] \<or> hd rest = sep"
  shows "length (js_split sep (first @ sep # line @ rest)) > 1 \<and>
         js_split sep (first @ sep # line @ rest) ! 1 = line"
proof (cases rest)
  case Nil
  then show ?thesis
    using assms by (simp add: js_split_at_separator js_split_without_separator)
next
  case (Cons c r)
  then have "rest = sep # r"
    using assms by simp
  then show ?thesis
    using assms by (simp add: js_split_at_separator)
qed

lemma colon_not_digit: "\<not> isDigit CHR '':''"
  by (simp add: isDigit_def)

lemma startsWith_colon: "startsWith s '':'' \<longleftrightarrow> (\<exists>t. s = CHR '':'' # t)"
  by (cases s) (simp_all add: startsWith_def)

lemma pattern_at_head:
  "spec_pattern_at [] ds post (c # cs) \<longleftrightarrow>
     c = CHR '':'' \<and> takeWhile isDigit cs = ds \<and> ds \<noteq> [] \<and> dropWhile isDigit cs = CHR '':'' # post"
proof
  assume "spec_pattern_at [] ds post (c # cs)"
  then have c: "c = CHR '':''" and cs: "cs = ds @ CHR '':'' # post" and ds: "ds \<noteq> []" "\<forall>d\<in>set ds. isDigit d"
    by (simp_all add: spec_pattern_at_def list_all_iff)
  have "takeWhile isDigit cs = ds"
    using ds by (simp add: cs takeWhile_tail colon_not_digit)
  moreover have "dropWhile isDigit cs = CHR '':'' # post"
    using ds by (simp add: cs dropWhile_append2 colon_not_digit)
  ultimately show "c = CHR '':'' \<and> takeWhile isDigit cs = ds \<and> ds \<noteq> [] \<and>
      dropWhile isDigit cs = CHR '':'' # post"
    using c ds by simp
next
  assume a: "c = CHR '':'' \<and> takeWhile isDigit cs = ds \<and> ds \<noteq> [] \<and>
      dropWhile isDigit cs = CHR '':'' # post"
  have "cs = takeWhile isDigit cs @ dropWhile isDigit cs"
    by simp
  then have "cs = ds @ CHR '':'' # post"
    using a by simp
  moreover have "list_all isDigit ds"
    using a by (auto simp add: list_all_iff dest: set_takeWhileD)
  ultimately show "spec_pattern_at [] ds post (c # cs)"
    using a by (simp add: spec_pattern_at_def)
qed

lemma pattern_at_tail:
  "spec_pattern_at (c # pre) ds post (c' # cs) \<longleftrightarrow> c = c' \<and> spec_pattern_at pre ds post cs"
  by (auto simp add: spec_pattern_at_def)

lemma match_line_pattern_None:
  "match_line_pattern line = None \<Longrightarrow> \<not> spec_pattern_at pre ds post line"
proof (induction line arbitrary: pre)
  case Nil
  then show ?case by (simp add: spec_pattern_at_def)
next
  case (Cons c cs)
  show ?case
  proof (cases pre)
    case Nil
    with Cons.prems show ?thesis
      by (auto simp add: pattern_at_head startsWith_colon split: if_splits)
  next
    case (Cons p pre')
    with Cons.IH Cons.prems show ?thesis
      by (auto simp add: pattern_at_tail split: if_splits)
  qed
qed

lemma match_line_pattern_Some:
  "match_line_pattern line = Some ds \<Longrightarrow>
   \<exists>pre post. spec_pattern_at pre ds post line \<and>
     (\<forall>pre' ds' post'. spec_pattern_at pre' ds' post' line \<longrightarrow> length pre \<le> length pre')"
proof (induction line)
  case Nil
  then show ?case by simp
next
  case (Cons c cs)
  show ?case
  proof (cases "c = CHR '':'' \<and> takeWhile isDigit cs \<noteq> [] \<and> startsWith (dropWhile isDigit cs) '':''")
    case True
    then obtain post where "dropWhile isDigit cs = CHR '':'' # post"
      by (auto simp add: startsWith_colon)
    with True Cons.prems have "spec_pattern_at [] ds post (c # cs)"
      by (auto simp add: pattern_at_head)
    then show ?thesis
      by (intro exI [of _ "[]"] exI [of _ post]) simp
  next
    case False
    with Cons.prems have "match_line_pattern cs = Some ds"
      by (simp split: if_splits)
    with Cons.IH obtain pre post where
      at: "spec_pattern_at pre ds post cs" and
      least: "\<forall>pre' ds' post'. spec_pattern_at pre' ds' post' cs \<longrightarrow> length pre \<le> length pre'"
      by blast
    have "spec_pattern_at (c # pre) ds post (c # cs)"
      using at by (simp add: pattern_at_tail)
    moreover have "length (c # pre) \<le> length pre'" if "spec_pattern_at pre' ds' post' (c # cs)"
      for pre' ds' post'
    proof (cases pre')
      case Nil
      with that False show ?thesis
        by (auto simp add: pattern_at_head startsWith_colon)
    next
      case (Cons p q)
      with that least show ?thesis
        by (auto simp add: pattern_at_tail)
    qed
    ultimately show ?thesis
      by blast
  qed
qed

section \<open>Missing preconditions\<close>

text \<open>
  C1, as amended.  \<open>runCommand\<close> and \<open>debugCommand\<close> begin with \<open>stopDebugging\<close>, which
  spawns the process listing, force-kills what is listed, and resets the running flag.
  When that phase completes and the path that \<open>getExecutablePath\<close> returns is undefined or
  empty, or no editor is active, both commands return normally, and the last thing they do
  is to show the notification naming the missing precondition.  They spawn no command
  besides the process listing and the force-kill of the stopping phase, unlink nothing,
  and leave the tracked executable name and the diagnostic collection as they were.  The
  running flag is false afterwards, whatever it was before.
\<close>

theorem missing_precondition_reported_after_stopping:
  assumes stop: "stopDebugging os s = (Resolved (), s1)"
      and path: "getExecutablePath os s1 = (p, s2)"
      and missing: "p = None \<or> p = Some [] \<or> activeTextEditor s = None"
  shows "fst (runCommand os s) = Resolved () \<and>
         debugCommand os s = runCommand os s \<and>
         events (snd (runCommand os s)) =
           events s2 @
           [ShowInformationMessage
              (if p = None \<or> p = Some [] then ''No executable path set!'' else ''No active editor!'')] \<and>
         (\<exists>cs. exec_commands (events (snd (runCommand os s))) = exec_commands (events s) @ cs \<and>
               set cs \<subseteq> {''tasklist'', ''taskkill /F /IM ollydbg.exe'',
                          ''taskkill /F /IM '' @ currentDebugFileExecutable s}) \<and>
         unlinked (events (snd (runCommand os s))) = unlinked (events s) \<and>
         currentDebugFileExecutable (snd (runCommand os s)) = currentDebugFileExecutable s \<and>
         diagnosticCollection (snd (runCommand os s)) = diagnosticCollection s \<and>
         \<not> asm_showStopIconInEditorTitleMenu (snd (runCommand os s)) \<and>
         \<not> stoppingExecutable (snd (runCommand os s))"
proof -
  note run = precondition_missing(1) [OF stop path missing]
  have s2: "s2 = snd (getExecutablePath os (snd (stopDebugging os s)))"
    by (simp add: stop path)
  have flags: "\<not> stoppingExecutable s1 \<and> \<not> asm_showStopIconInEditorTitleMenu s1"
    using stopDebugging_resolved [of os s "()"] by (simp add: stop)
  have s1: "s1 = snd (stopDebugging os s)"
    by (simp add: stop)
  have cmds: "\<exists>cs. exec_commands (events s2) = exec_commands (events s) @ cs \<and>
               set cs \<subseteq> {''tasklist'', ''taskkill /F /IM ollydbg.exe'',
                          ''taskkill /F /IM '' @ currentDebugFileExecutable s}"
    using stopDebugging_exec_commands [of os s] by (simp add: s2)
  have frame: "unlinked (events s2) = unlinked (events s)"
    "currentDebugFileExecutable s2 = currentDebugFileExecutable s"
    "diagnosticCollection s2 = diagnosticCollection s"
    by (simp_all add: s2)
  have flags2: "\<not> asm_showStopIconInEditorTitleMenu s2" "\<not> stoppingExecutable s2"
    using flags by (simp_all add: s2 s1 [symmetric])
  show ?thesis
    using cmds frame flags2
    by (simp add: run precondition_missing(2) [OF stop path missing])
qed

theorem missing_precondition_reported_after_stopping_witness:
  "stopDebugging (scripted_os None) without_toolchain =
     (Resolved (), snd (stopDebugging (scripted_os None) without_toolchain)) \<and>
   getExecutablePath (scripted_os None) (snd (stopDebugging (scripted_os None) without_toolchain)) =
     (None, snd (getExecutablePath (scripted_os None) (snd (stopDebugging (scripted_os None) without_toolchain)))) \<and>
   fst (runCommand (scripted_os None) without_toolchain) = Resolved () \<and>
   debugCommand (scripted_os None) without_toolchain = runCommand (scripted_os None) without_toolchain \<and>
   currentDebugFileExecutable (snd (runCommand (scripted_os None) without_toolchain)) =
     currentDebugFileExecutable without_toolchain \<and>
   diagnosticCollection (snd (runCommand (scripted_os None) without_toolchain)) =
     diagnosticCollection without_toolchain \<and>
   asm_showStopIconInEditorTitleMenu without_toolchain \<and>
   \<not> asm_showStopIconInEditorTitleMenu (snd (runCommand (scripted_os None) without_toolchain))"
proof -
  have "fst (stopDebugging (scripted_os None) without_toolchain) = Resolved ()"
    by code_simp
  then have stop: "stopDebugging (scripted_os None) without_toolchain =
      (Resolved (), snd (stopDebugging (scripted_os None) without_toolchain))"
    by (rule resolved_unit)
  have "fst (getExecutablePath (scripted_os None) (snd (stopDebugging (scripted_os None) without_toolchain))) = None"
    by (simp add: getExecutablePath_def without_toolchain_def)
  then have path: "getExecutablePath (scripted_os None) (snd (stopDebugging (scripted_os None) without_toolchain)) =
     (None, snd (getExecutablePath (scripted_os None) (snd (stopDebugging (scripted_os None) without_toolchain))))"
    by (simp add: prod_eq_iff)
  have flag: "asm_showStopIconInEditorTitleMenu without_toolchain"
    by (simp add: without_toolchain_def)
  show ?thesis
    using stop path flag missing_precondition_reported_after_stopping [OF stop path]
    by simp
qed

text \<open>
  Without the stopping phase the statement fails.  In a session whose running flag is set
  (the default of the configuration entry) and whose toolchain path is not configured,
  \<open>runCommand\<close> spawns the process listing and clears the flag.
\<close>

theorem runCommand_without_toolchain_counterexample:
  "asm_executablePath (session (Some ''hello.asm'') None [] True [(None, ''svchost.exe'')]) = None \<and>
   asm_showStopIconInEditorTitleMenu (session (Some ''hello.asm'') None [] True [(None, ''svchost.exe'')]) \<and>
   fst (runCommand (scripted_os None) (session (Some ''hello.asm'') None [] True [(None, ''svchost.exe'')])) =
     Resolved () \<and>
   \<not> asm_showStopIconInEditorTitleMenu
       (snd (runCommand (scripted_os None) (session (Some ''hello.asm'') None [] True [(None, ''svchost.exe'')]))) \<and>
   exec_commands (events
       (snd (runCommand (scripted_os None) (session (Some ''hello.asm'') None [] True [(None, ''svchost.exe'')])))) =
     [''tasklist'']"
  by code_simp

section \<open>The running flag\<close>

text \<open>
  C2.  The flag is not reset on every exit path.  \<open>debugCommand\<close> sets it before it
  launches the debugger and clears it after the launch has returned; when the launch is
  rejected, the clearing is skipped.  Here the process listing, the assembler and the
  linker succeed, the debugger ends with an error, and no stop is in progress: the
  invocation is rejected and the flag, false before, is true after.
\<close>

theorem debugCommand_failed_launch_leaves_running_flag_set:
  "\<not> asm_showStopIconInEditorTitleMenu
       (session (Some ''hello.asm'') (Some ''tools'') [] False
          [(None, ''svchost.exe''), (None, []), (None, []), (Some ''Command failed: ollydbg'', [])]) \<and>
   fst (debugCommand (scripted_os None)
          (session (Some ''hello.asm'') (Some ''tools'') [] False
             [(None, ''svchost.exe''), (None, []), (None, []), (Some ''Command failed: ollydbg'', [])])) =
     Rejected ''Error: Command failed: ollydbg'' \<and>
   asm_showStopIconInEditorTitleMenu
     (snd (debugCommand (scripted_os None)
             (session (Some ''hello.asm'') (Some ''tools'') [] False
                [(None, ''svchost.exe''), (None, []), (None, []), (Some ''Command failed: ollydbg'', [])])))"
  by code_simp

section \<open>The process terminator\<close>

text \<open>
  C3, as amended.  \<open>killExecutable\<close> completes normally for every executable name and
  every outcome of the force-kill command, provided the process listing itself succeeds.
  An error of the force-kill command is logged and swallowed: the promise is resolved.
  An error of the process listing is logged and the promise is rejected with the message
  of that error.  The operation is idempotent: called twice in a row while the listing
  succeeds and does not show the name, it is resolved both times, spawns nothing but the
  two listings, logs that the executable is not running, and changes nothing else.
\<close>

theorem killExecutable_completes_when_listing_succeeds:
  "(fst (fst (os_exec os ''tasklist'' (world s))) = None
    \<longrightarrow> (\<exists>v. fst (killExecutable os executable s) = Resolved v)) \<and>
   (os_exec os ''tasklist'' (world s) = ((Some msg, out), w)
    \<longrightarrow> fst (killExecutable os executable s) = Rejected msg \<and>
        ConsoleError (''Error checking for running processes: Error: '' @ msg)
          \<in> set (events (snd (killExecutable os executable s)))) \<and>
   (os_exec os ''tasklist'' (world s) = ((None, out1), w1) \<and>
    \<not> js_includes (toLowerCase out1) (toLowerCase executable) \<and>
    os_exec os ''tasklist'' w1 = ((None, out2), w2) \<and>
    \<not> js_includes (toLowerCase out2) (toLowerCase executable)
    \<longrightarrow> fst (killExecutable os executable s) = Resolved out1 \<and>
        killExecutable os executable (snd (killExecutable os executable s)) =
          (Resolved out2,
           s\<lparr>events := events s @
                [Exec ''tasklist'',
                 ConsoleLog (''The executable '' @ executable @ '' is not running.''),
                 Exec ''tasklist'',
                 ConsoleLog (''The executable '' @ executable @ '' is not running.'')],
             world := w2\<rparr>)) \<and>
   (os_exec os ''tasklist'' (world s) = ((None, listed), after_listing) \<and>
    js_includes (toLowerCase listed) (toLowerCase executable) \<and>
    os_exec os (''taskkill /F /IM '' @ executable) after_listing = ((Some kill_msg, kill_out), after_kill)
    \<longrightarrow> fst (killExecutable os executable s) = Resolved ''error'' \<and>
        ConsoleError (''Error stopping '' @ executable @ '': Error: '' @ kill_msg)
          \<in> set (events (snd (killExecutable os executable s))))"
proof (intro conjI impI)
  assume "fst (fst (os_exec os ''tasklist'' (world s))) = None"
  then show "\<exists>v. fst (killExecutable os executable s) = Resolved v"
    by (rule killExecutable_listing_ok)
next
  assume a: "os_exec os ''tasklist'' (world s) = ((Some msg, out), w)"
  then show "fst (killExecutable os executable s) = Rejected msg"
    by (rule killExecutable_listing_error)
  from a show "ConsoleError (''Error checking for running processes: Error: '' @ msg)
          \<in> set (events (snd (killExecutable os executable s)))"
    by (simp add: killExecutable_def exec_def Let_def errorToString_def case_prod_beta split: option.splits)
next
  assume a: "os_exec os ''tasklist'' (world s) = ((None, out1), w1) \<and>
    \<not> js_includes (toLowerCase out1) (toLowerCase executable) \<and>
    os_exec os ''tasklist'' w1 = ((None, out2), w2) \<and>
    \<not> js_includes (toLowerCase out2) (toLowerCase executable)"
  then have first: "killExecutable os executable s =
     (Resolved out1,
      s\<lparr>events := events s @
           [Exec ''tasklist'', ConsoleLog (''The executable '' @ executable @ '' is not running.'')],
        world := w1\<rparr>)"
    by (simp add: killExecutable_not_running)
  then show "fst (killExecutable os executable s) = Resolved out1"
    by simp
  from a show "killExecutable os executable (snd (killExecutable os executable s)) =
          (Resolved out2,
           s\<lparr>events := events s @
                [Exec ''tasklist'',
                 ConsoleLog (''The executable '' @ executable @ '' is not running.''),
                 Exec ''tasklist'',
                 ConsoleLog (''The executable '' @ executable @ '' is not running.'')],
             world := w2\<rparr>)"
    by (simp add: first killExecutable_not_running)
next
  assume a: "os_exec os ''tasklist'' (world s) = ((None, listed), after_listing) \<and>
    js_includes (toLowerCase listed) (toLowerCase executable) \<and>
    os_exec os (''taskkill /F /IM '' @ executable) after_listing = ((Some kill_msg, kill_out), after_kill)"
  then show "fst (killExecutable os executable s) = Resolved ''error''"
    by (simp add: killExecutable_def exec_def Let_def)
  from a show "ConsoleError (''Error stopping '' @ executable @ '': Error: '' @ kill_msg)
          \<in> set (events (snd (killExecutable os executable s)))"
    by (simp add: killExecutable_def exec_def Let_def errorToString_def)
qed

theorem killExecutable_completes_when_listing_succeeds_witness:
  "fst (fst (os_exec (scripted_os None) ''tasklist''
               (world (session None None [] False [(None, ''svchost.exe''), (None, ''svchost.exe'')])))) = None \<and>
   os_exec (scripted_os None) ''tasklist''
     (world (session None None [] False [(None, ''svchost.exe''), (None, ''svchost.exe'')])) =
     ((None, ''svchost.exe''), [(None, ''svchost.exe'')]) \<and>
   \<not> js_includes (toLowerCase ''svchost.exe'') (toLowerCase ''a.exe'') \<and>
   os_exec (scripted_os None) ''tasklist'' [(None, ''svchost.exe'')] = ((None, ''svchost.exe''), []) \<and>
   (\<exists>v. fst (killExecutable (scripted_os None) ''a.exe''
               (session None None [] False [(None, ''svchost.exe''), (None, ''svchost.exe'')])) = Resolved v) \<and>
   killExecutable (scripted_os None) ''a.exe''
     (snd (killExecutable (scripted_os None) ''a.exe''
             (session None None [] False [(None, ''svchost.exe''), (None, ''svchost.exe'')]))) =
     (Resolved ''svchost.exe'',
      (session None None [] False [(None, ''svchost.exe''), (None, ''svchost.exe'')])
        \<lparr>events := [Exec ''tasklist'', ConsoleLog ''The executable a.exe is not running.'',
                    Exec ''tasklist'', ConsoleLog ''The executable a.exe is not running.''],
         world := []\<rparr>) \<and>
   os_exec (scripted_os None) ''tasklist'' (world (session None None [] False [(Some ''no shell'', [])])) =
     ((Some ''no shell'', []), []) \<and>
   fst (killExecutable (scripted_os None) ''a.exe'' (session None None [] False [(Some ''no shell'', [])])) =
     Rejected ''no shell'' \<and>
   os_exec (scripted_os None) ''tasklist''
     (world (session None None [] False [(None, ''PROG.EXE 9''), (Some ''Access denied'', [])])) =
     ((None, ''PROG.EXE 9''), [(Some ''Access denied'', [])]) \<and>
   js_includes (toLowerCase ''PROG.EXE 9'') (toLowerCase ''prog.exe'') \<and>
   os_exec (scripted_os None) (''taskkill /F /IM '' @ ''prog.exe'') [(Some ''Access denied'', [])] =
     ((Some ''Access denied'', []), []) \<and>
   fst (killExecutable (scripted_os None) ''prog.exe''
          (session None None [] False [(None, ''PROG.EXE 9''), (Some ''Access denied'', [])])) =
     Resolved ''error'' \<and>
   ConsoleError ''Error stopping prog.exe: Error: Access denied''
     \<in> set (events (snd (killExecutable (scripted_os None) ''prog.exe''
          (session None None [] False [(None, ''PROG.EXE 9''), (Some ''Access denied'', [])]))))"
proof -
  have incl: "\<not> js_includes (toLowerCase ''svchost.exe'') (toLowerCase ''a.exe'')"
    by code_simp
  have listed: "js_includes (toLowerCase ''PROG.EXE 9'') (toLowerCase ''prog.exe'')"
    by code_simp
  show ?thesis
    using incl listed
      killExecutable_completes_when_listing_succeeds
        [where os = "scripted_os None"
           and s = "session None None [] False [(None, ''PROG.EXE 9''), (Some ''Access denied'', [])]"
           and executable = "''prog.exe''" and listed = "''PROG.EXE 9''"
           and after_listing = "[(Some ''Access denied'', [])]" and kill_msg = "''Access denied''"
           and kill_out = "[]" and after_kill = "[]"]
      killExecutable_completes_when_listing_succeeds
        [of "scripted_os None" "session None None [] False [(None, ''svchost.exe''), (None, ''svchost.exe'')]"
            "''a.exe''" _ _ _ "''svchost.exe''" "[(None, ''svchost.exe'')]" "''svchost.exe''" "[]"]
      killExecutable_completes_when_listing_succeeds
        [of "scripted_os None" "session None None [] False [(Some ''no shell'', [])]"
            "''a.exe''" "''no shell''" "[]" "[]"]
    by simp
qed

text \<open>
  That the operation never fails does not hold: when the process listing ends with an
  error, the promise is rejected.
\<close>

theorem killExecutable_rejects_on_listing_error_counterexample:
  "fst (killExecutable (scripted_os None) ''ollydbg.exe''
          (session None None [] False [(Some ''Command failed: tasklist'', [])])) =
     Rejected ''Command failed: tasklist''"
  by (simp add: killExecutable_listing_error)

section \<open>Derived paths\<close>

text \<open>
  C4.  For a source path that ends in an extension of three characters, the listing,
  object and executable paths are the path with these three characters replaced by
  \<open>lst\<close>, \<open>obj\<close> and \<open>exe\<close>.  \<open>runCommand\<close> and \<open>debugCommand\<close> derive the same
  three paths from every source path.
\<close>

theorem derived_files_replace_extension:
  "length ext = 3 \<Longrightarrow>
   debugCommand_files (base @ ext) = (base @ ''lst'', base @ ''obj'', base @ ''exe'') \<and>
   runCommand_files (base @ ext) = (base @ ''lst'', base @ ''obj'', base @ ''exe'') \<and>
   runCommand_files p = debugCommand_files p"
  by (simp add: debugCommand_files_def runCommand_files_def slice_0_minus3_def)

theorem derived_files_replace_extension_witness:
  "length ''asm'' = 3 \<and>
   debugCommand_files (''src/hello.'' @ ''asm'') = (''src/hello.lst'', ''src/hello.obj'', ''src/hello.exe'') \<and>
   runCommand_files (''src/hello.'' @ ''asm'') = (''src/hello.lst'', ''src/hello.obj'', ''src/hello.exe'')"
  using derived_files_replace_extension [of "''asm''" "''src/hello.''"] by simp

section \<open>The error locator\<close>

text \<open>
  C5.  The error locator looks at the second line of the text only.  A text without a
  line break has no second line, and the result is not found.  Otherwise, when the second
  line holds a colon, digits and a colon, the result is the digits of the leftmost such
  place, together with the whole second line as the message; when it holds none, the
  result is not found.  The digits are read as a decimal numeral, and \<open>Number\<close> gives
  that value exactly as long as it is at most \<open>2 ^ 53\<close>.  For the two lines \<open>line1\<close> and
  \<open>file.asm:17: error message\<close> the result is line 17 with the second line as message.
\<close>

theorem errorLocator_examines_second_line:
  "(newline \<notin> set text \<longrightarrow> errorLocator text = None) \<and>
   (newline \<notin> set first \<and> newline \<notin> set line \<and> (rest = [] \<or> hd rest = newline) \<longrightarrow>
      (case errorLocator (first @ newline # line @ rest) of
         None \<Rightarrow> \<forall>pre ds post. \<not> spec_pattern_at pre ds post line
       | Some (lineNumber, msg) \<Rightarrow>
           msg = line \<and>
           (\<exists>pre post. spec_pattern_at pre lineNumber post line \<and>
              (\<forall>pre' ds' post'. spec_pattern_at pre' ds' post' line \<longrightarrow> length pre \<le> length pre')) \<and>
           (decimalValue lineNumber \<le> 9007199254740992 \<longrightarrow>
              Number lineNumber = Finite (decimalValue lineNumber)))) \<and>
   decimalValue [] = 0 \<and>
   decimalValue (ds @ [d]) = 10 * decimalValue ds + (of_char d - of_char CHR ''0'') \<and>
   errorLocator (''line1'' @ newline # ''file.asm:17: error message'') =
     Some (''17'', ''file.asm:17: error message'') \<and>
   Number ''17'' = Finite 17"
proof (intro conjI impI)
  assume "newline \<notin> set text"
  then show "errorLocator text = None"
    by (simp add: errorLocator_def js_split_without_separator)
next
  assume "newline \<notin> set first \<and> newline \<notin> set line \<and> (rest = [] \<or> hd rest = newline)"
  then have second: "length (js_split newline (first @ newline # line @ rest)) > 1"
    "js_split newline (first @ newline # line @ rest) ! 1 = line"
    using js_split_second_line [of newline first line rest] by simp_all
  show "case errorLocator (first @ newline # line @ rest) of
         None \<Rightarrow> \<forall>pre ds post. \<not> spec_pattern_at pre ds post line
       | Some (lineNumber, msg) \<Rightarrow>
           msg = line \<and>
           (\<exists>pre post. spec_pattern_at pre lineNumber post line \<and>
              (\<forall>pre' ds' post'. spec_pattern_at pre' ds' post' line \<longrightarrow> length pre \<le> length pre')) \<and>
           (decimalValue lineNumber \<le> 9007199254740992 \<longrightarrow>
              Number lineNumber = Finite (decimalValue lineNumber))"
  proof (cases "match_line_pattern line")
    case None
    then show ?thesis
      using second by (simp add: errorLocator_def match_line_pattern_None)
  next
    case (Some lineNumber)
    then show ?thesis
      using second match_line_pattern_Some [OF Some]
      by (simp add: errorLocator_def Number_exact)
  qed
next
  show "decimalValue [] = 0"
    by (rule decimalValue_Nil)
next
  show "decimalValue (ds @ [d]) = 10 * decimalValue ds + (of_char d - of_char CHR ''0'')"
    by (simp add: decimalValue_snoc)
next
  show "errorLocator (''line1'' @ newline # ''file.asm:17: error message'') =
     Some (''17'', ''file.asm:17: error message'')"
    by code_simp
next
  show "Number ''17'' = Finite 17"
    by code_simp
qed

theorem errorLocator_examines_second_line_witness:
  "newline \<notin> set ''nasm: fatal: unable to open input file'' \<and>
   errorLocator ''nasm: fatal: unable to open input file'' = None \<and>
   newline \<notin> set ''warning'' \<and> newline \<notin> set ''bad.asm:5: undefined symbol FOO'' \<and>
   spec_pattern_at ''bad.asm'' ''5'' '' undefined symbol FOO'' ''bad.asm:5: undefined symbol FOO'' \<and>
   (\<exists>lineNumber. errorLocator (''warning'' @ newline # ''bad.asm:5: undefined symbol FOO'' @ []) =
          Some (lineNumber, ''bad.asm:5: undefined symbol FOO'') \<and>
          (decimalValue lineNumber \<le> 9007199254740992 \<longrightarrow>
             Number lineNumber = Finite (decimalValue lineNumber)))"
proof -
  have a: "newline \<notin> set ''nasm: fatal: unable to open input file''"
    by (simp add: newline_def)
  have b: "newline \<notin> set ''warning'' \<and> newline \<notin> set ''bad.asm:5: undefined symbol FOO'' \<and>
           ([] = [] \<or> hd [] = newline)"
    by (simp add: newline_def)
  have c: "spec_pattern_at ''bad.asm'' ''5'' '' undefined symbol FOO'' ''bad.asm:5: undefined symbol FOO''"
    by (simp add: spec_pattern_at_def isDigit_def)
  have none: "errorLocator ''nasm: fatal: unable to open input file'' = None"
    using a errorLocator_examines_second_line
      [of "''nasm: fatal: unable to open input file''" "[]" "[]" "[]" "[]" "CHR ''0''"]
    by blast
  have "case errorLocator (''warning'' @ newline # ''bad.asm:5: undefined symbol FOO'' @ []) of
         None \<Rightarrow> \<forall>pre ds post. \<not> spec_pattern_at pre ds post ''bad.asm:5: undefined symbol FOO''
       | Some (lineNumber, msg) \<Rightarrow>
           msg = ''bad.asm:5: undefined symbol FOO'' \<and>
           (\<exists>pre post. spec_pattern_at pre lineNumber post ''bad.asm:5: undefined symbol FOO'' \<and>
              (\<forall>pre' ds' post'. spec_pattern_at pre' ds' post' ''bad.asm:5: undefined symbol FOO'' \<longrightarrow>
                 length pre \<le> length pre')) \<and>
           (decimalValue lineNumber \<le> 9007199254740992 \<longrightarrow>
              Number lineNumber = Finite (decimalValue lineNumber))"
    using b errorLocator_examines_second_line
      [of "[]" "''warning''" "''bad.asm:5: undefined symbol FOO''" "[]" "[]" "CHR ''0''"]
    by blast
  then have some: "\<exists>lineNumber. errorLocator (''warning'' @ newline # ''bad.asm:5: undefined symbol FOO'' @ []) =
          Some (lineNumber, ''bad.asm:5: undefined symbol FOO'') \<and>
          (decimalValue lineNumber \<le> 9007199254740992 \<longrightarrow>
             Number lineNumber = Finite (decimalValue lineNumber))"
    using c by (cases "errorLocator (''warning'' @ newline # ''bad.asm:5: undefined symbol FOO'' @ [])") auto
  show ?thesis
    using a b c none some by blast
qed

section \<open>A failing assembler\<close>




section \<open>A failing exit during a stop\<close>




section \<open>Deleting the derived files\<close>



section \<open>The stopping phase\<close>

text \<open>
  C9, as amended.  The stopping phase of \<open>runCommand\<close> is the one of \<open>debugCommand\<close> and
  \<open>stopCommand\<close>: all three start with \<open>stopDebugging\<close>.  The first command spawned is
  the process listing for the debugger \<open>ollydbg.exe\<close>, which is force-killed when
  listed; the tracked executable, when there is one, is dealt with after that.
\<close>

theorem every_command_stops_debugger_then_target:
  "(\<exists>cs. exec_commands (events (snd (runCommand os s))) =
           exec_commands (events s) @ ''tasklist'' #
             (if js_includes (toLowerCase (snd (fst (os_exec os ''tasklist'' (world s)))))
                   (toLowerCase ''ollydbg.exe'')
              then [''taskkill /F /IM ollydbg.exe''] else []) @ cs) \<and>
   prefix (events (snd (killExecutable os ''ollydbg.exe'' (s\<lparr>stoppingExecutable := True\<rparr>))))
     (events (snd (runCommand os s))) \<and>
   (fst (killExecutable os ''ollydbg.exe'' (s\<lparr>stoppingExecutable := True\<rparr>)) = Resolved v \<and>
    currentDebugFileExecutable s \<noteq> [] \<longrightarrow>
      prefix (events (snd (killExecutable os (currentDebugFileExecutable s)
                             (snd (killExecutable os ''ollydbg.exe'' (s\<lparr>stoppingExecutable := True\<rparr>))))))
        (events (snd (runCommand os s)))) \<and>
   prefix (events (snd (stopDebugging os s))) (events (snd (runCommand os s))) \<and>
   prefix (events (snd (stopDebugging os s))) (events (snd (debugCommand os s))) \<and>
   prefix (events (snd (stopDebugging os s))) (events (snd (stopCommand os s)))"
proof -
  let ?k1 = "snd (killExecutable os ''ollydbg.exe'' (s\<lparr>stoppingExecutable := True\<rparr>))"
  note run = runCommand_extends_stopDebugging [of os s]
  note first = stopDebugging_extends_first_kill [of os s]
  have first_run: "prefix (events ?k1) (events (snd (runCommand os s)))"
    using first run by (rule prefix_order.trans)
  then obtain es where es: "events (snd (runCommand os s)) = events ?k1 @ es"
    by (auto simp add: prefix_def)
  have cmds: "\<exists>cs. exec_commands (events (snd (runCommand os s))) =
           exec_commands (events s) @ ''tasklist'' #
             (if js_includes (toLowerCase (snd (fst (os_exec os ''tasklist'' (world s)))))
                   (toLowerCase ''ollydbg.exe'')
              then [''taskkill /F /IM ollydbg.exe''] else []) @ cs"
    by (simp add: es killExecutable_exec_commands)
  have second: "fst (killExecutable os ''ollydbg.exe'' (s\<lparr>stoppingExecutable := True\<rparr>)) = Resolved v \<and>
    currentDebugFileExecutable s \<noteq> [] \<longrightarrow>
      prefix (events (snd (killExecutable os (currentDebugFileExecutable s) ?k1)))
        (events (snd (runCommand os s)))"
    using stopDebugging_extends_second_kill [of os s v] run
    by (auto intro: prefix_order.trans)
  show ?thesis
    using cmds first_run second run debugCommand_extends_stopDebugging [of os s]
      stopCommand_extends_stopDebugging [of os s]
    by blast
qed

theorem every_command_stops_debugger_then_target_witness:
  "fst (killExecutable (scripted_os None) ''ollydbg.exe''
          ((session (Some ''hello.asm'') None ''prog.exe'' False
              [(None, ''OllyDbg.exe 4012''), (None, ''SUCCESS''), (None, ''prog.exe 77''), (None, ''SUCCESS'')])
             \<lparr>stoppingExecutable := True\<rparr>)) = Resolved ''SUCCESS'' \<and>
   currentDebugFileExecutable
     (session (Some ''hello.asm'') None ''prog.exe'' False
        [(None, ''OllyDbg.exe 4012''), (None, ''SUCCESS''), (None, ''prog.exe 77''), (None, ''SUCCESS'')]) \<noteq> [] \<and>
   prefix
     (events (snd (killExecutable (scripted_os None) ''prog.exe''
        (snd (killExecutable (scripted_os None) ''ollydbg.exe''
           ((session (Some ''hello.asm'') None ''prog.exe'' False
              [(None, ''OllyDbg.exe 4012''), (None, ''SUCCESS''), (None, ''prog.exe 77''), (None, ''SUCCESS'')])
             \<lparr>stoppingExecutable := True\<rparr>))))))
     (events (snd (runCommand (scripted_os None)
        (session (Some ''hello.asm'') None ''prog.exe'' False
           [(None, ''OllyDbg.exe 4012''), (None, ''SUCCESS''), (None, ''prog.exe 77''), (None, ''SUCCESS'')]))))"
proof -
  have k: "fst (killExecutable (scripted_os None) ''ollydbg.exe''
          ((session (Some ''hello.asm'') None ''prog.exe'' False
              [(None, ''OllyDbg.exe 4012''), (None, ''SUCCESS''), (None, ''prog.exe 77''), (None, ''SUCCESS'')])
             \<lparr>stoppingExecutable := True\<rparr>)) = Resolved ''SUCCESS''"
    by code_simp
  show ?thesis
    using k every_command_stops_debugger_then_target
      [of "scripted_os None"
          "session (Some ''hello.asm'') None ''prog.exe'' False
             [(None, ''OllyDbg.exe 4012''), (None, ''SUCCESS''), (None, ''prog.exe 77''), (None, ''SUCCESS'')]"
          "''SUCCESS''"]
    by simp
qed

text \<open>
  That \<open>runCommand\<close> leaves the debugger alone does not hold: with no executable tracked
  and the debugger listed, it force-kills the debugger.
\<close>

theorem runCommand_kills_debugger_counterexample:
  "currentDebugFileExecutable
     (session (Some ''hello.asm'') None [] False [(None, ''OllyDbg.exe 4012''), (None, ''SUCCESS'')]) = [] \<and>
   exec_commands (events (snd (runCommand (scripted_os None)
     (session (Some ''hello.asm'') None [] False [(None, ''OllyDbg.exe 4012''), (None, ''SUCCESS'')])))) =
     [''tasklist'', ''taskkill /F /IM ollydbg.exe'']"
  by code_simp

section \<open>Errors of the two commands of the terminator\<close>

text \<open>
  C10.  In \<open>killExecutable\<close> the two commands are treated differently.  When the
  process is listed and the force-kill command ends with an error, the promise is resolved
  with the marker \<open>error\<close>.  When the process-listing command ends with an error, the
  promise is rejected with the message of that error.
\<close>

theorem killExecutable_kill_error_swallowed_listing_error_rejected:
  "(os_exec os ''tasklist'' (world s) = ((None, out), w) \<and>
    js_includes (toLowerCase out) (toLowerCase executable) \<and>
    os_exec os (''taskkill /F /IM '' @ executable) w = ((Some msg', out'), w')
    \<longrightarrow> fst (killExecutable os executable s) = Resolved ''error'') \<and>
   (os_exec os ''tasklist'' (world s) = ((Some msg, out), w)
    \<longrightarrow> fst (killExecutable os executable s) = Rejected msg)"
proof (intro conjI impI)
  assume "os_exec os ''tasklist'' (world s) = ((None, out), w) \<and>
    js_includes (toLowerCase out) (toLowerCase executable) \<and>
    os_exec os (''taskkill /F /IM '' @ executable) w = ((Some msg', out'), w')"
  then show "fst (killExecutable os executable s) = Resolved ''error''"
    by (simp add: killExecutable_def exec_def Let_def)
next
  assume "os_exec os ''tasklist'' (world s) = ((Some msg, out), w)"
  then show "fst (killExecutable os executable s) = Rejected msg"
    by (rule killExecutable_listing_error)
qed

theorem killExecutable_kill_error_swallowed_listing_error_rejected_witness:
  "os_exec (scripted_os None) ''tasklist''
     (world (session None None [] False [(None, ''A.EXE 412''), (Some ''Access is denied.'', [])])) =
     ((None, ''A.EXE 412''), [(Some ''Access is denied.'', [])]) \<and>
   js_includes (toLowerCase ''A.EXE 412'') (toLowerCase ''a.exe'') \<and>
   os_exec (scripted_os None) (''taskkill /F /IM '' @ ''a.exe'') [(Some ''Access is denied.'', [])] =
     ((Some ''Access is denied.'', []), []) \<and>
   fst (killExecutable (scripted_os None) ''a.exe''
          (session None None [] False [(None, ''A.EXE 412''), (Some ''Access is denied.'', [])])) =
     Resolved ''error'' \<and>
   os_exec (scripted_os None) ''tasklist''
     (world (session None None [] False [(Some ''spawn failed'', [])])) =
     ((Some ''spawn failed'', []), []) \<and>
   fst (killExecutable (scripted_os None) ''a.exe''
          (session None None [] False [(Some ''spawn failed'', [])])) =
     Rejected ''spawn failed''"
proof -
  have incl: "js_includes (toLowerCase ''A.EXE 412'') (toLowerCase ''a.exe'')"
    by code_simp
  show ?thesis
    using incl
      killExecutable_kill_error_swallowed_listing_error_rejected
        [of "scripted_os None" "session None None [] False [(None, ''A.EXE 412''), (Some ''Access is denied.'', [])]"
            "''A.EXE 412''" "[(Some ''Access is denied.'', [])]" "''a.exe''" "''Access is denied.''" "[]" "[]"]
      killExecutable_kill_error_swallowed_listing_error_rejected
        [of "scripted_os None" "session None None [] False [(Some ''spawn failed'', [])]"
            _ _ _ _ _ _ "''spawn failed''"]
    by simp
qed

end
